theory Spec2Isabelle
  imports Main
begin

section \<open>The power calculator of \<^verbatim>\<open>app.py\<close>\<close>

text \<open>
  The whole program is a Streamlit script that is run from top to bottom on every
  render:
  \<^verbatim>\<open>
  st.title("Power Calculator")
  st.write("Enter a number to calculate its square, cube and fifth power.")
  n = st.number_input("Enter an integer", value=1, step=1)
  square = n**2
  cube = n**3
  fifth_power = n**5
  st.write(f"The sqaure of {n} is: {square}")
  st.write(f"The cube of {n} is: {cube}")
  st.write(f"The fifth_power of {n} is: {fifth_power}")
  \<close>
  With an integer \<open>value\<close> and an integer \<open>step\<close> the widget returns a Python
  \<open>int\<close>, so \<open>n\<close> is modelled as an unbounded \<open>int\<close>.
\<close>

subsection \<open>Python's integer power\<close>

text \<open>
  \<open>b ** e\<close> on two Python ints is the exact integer power when \<open>e\<close> is not negative.
  For a negative \<open>e\<close> Python leaves the integers: it raises \<open>ZeroDivisionError\<close> when
  \<open>b\<close> is zero and returns a float otherwise. Floats are not modelled, so that outcome
  is recorded as \<open>FloatResult\<close> without a value.
\<close>

datatype py_exit = ZeroDivisionError | FloatResult

definition py_pow :: "int \<Rightarrow> int \<Rightarrow> py_exit + int" where
  "py_pow b e =
     (if 0 \<le> e then Inr (b ^ nat e)
      else if b = 0 then Inl ZeroDivisionError
      else Inl FloatResult)"

subsection \<open>The computation (lines 11 to 13)\<close>

definition square :: "int \<Rightarrow> py_exit + int" where
  "square n = py_pow n 2"

definition cube :: "int \<Rightarrow> py_exit + int" where
  "cube n = py_pow n 3"

definition fifth_power :: "int \<Rightarrow> py_exit + int" where
  "fifth_power n = py_pow n 5"

text \<open>
  The three assignments in the order of the script; the first one that does not yield an
  integer ends the run.
\<close>

definition calculator :: "int \<Rightarrow> py_exit + (int \<times> int \<times> int)" where
  "calculator n =
     (case square n of
        Inl x \<Rightarrow> Inl x
      | Inr sq \<Rightarrow>
          (case cube n of
             Inl x \<Rightarrow> Inl x
           | Inr cu \<Rightarrow>
               (case fifth_power n of
                  Inl x \<Rightarrow> Inl x
                | Inr fp \<Rightarrow> Inr (sq, cu, fp))))"

subsection \<open>Formatting an integer in an f-string\<close>

text \<open>
  \<open>f"{n}"\<close> on an int is \<open>str(n)\<close>: the decimal digits without leading zeros, after a
  minus sign when the number is negative. The bound that recent CPython versions put on
  the number of digits of a converted integer is not part of this model, which
  therefore describes the formatting of integers below that bound only.
\<close>

definition digit_char :: "nat \<Rightarrow> char" where
  "digit_char d = ''0123456789'' ! d"

function nat_digits :: "nat \<Rightarrow> string" where
  "nat_digits k =
     (if k < 10 then [digit_char k]
      else nat_digits (k div 10) @ [digit_char (k mod 10)])"
  by pat_completeness auto
termination
  by (relation "measure (\<lambda>k. k)") auto

declare nat_digits.simps [simp del]

definition py_str :: "int \<Rightarrow> string" where
  "py_str i = (if i < 0 then CHR ''-'' # nat_digits (nat (- i)) else nat_digits (nat i))"

subsection \<open>The page and the widget\<close>

text \<open>
  What a run leaves on the page, in order. \<open>NumberInput label value step\<close> is the input
  field as the script configures it.
\<close>

datatype element = Title string | Text string | NumberInput string int int

text \<open>
  The state a run works on: what the user has entered into each input field so far
  (by label; nothing when the field was never adjusted) and the page that is being built.
  The record is extensible, so any further state of the host is carried in its
  \<open>more\<close> part.
\<close>

record render_state =
  entered :: "string \<rightharpoonup> int"
  page :: "element list"

definition st_title :: "string \<Rightarrow> 'a render_state_scheme \<Rightarrow> 'a render_state_scheme" where
  "st_title t s = s\<lparr>page := page s @ [Title t]\<rparr>"

definition st_write :: "string \<Rightarrow> 'a render_state_scheme \<Rightarrow> 'a render_state_scheme" where
  "st_write t s = s\<lparr>page := page s @ [Text t]\<rparr>"

text \<open>
  \<open>st.number_input(label, value=v, step=d)\<close> shows the field and returns what the user
  has entered, or \<open>v\<close> when the user has entered nothing. The range of values that
  the field accepts is decided by Streamlit and is not part of this model.
\<close>

definition st_number_input ::
  "string \<Rightarrow> int \<Rightarrow> int \<Rightarrow> 'a render_state_scheme \<Rightarrow> int \<times> 'a render_state_scheme" where
  "st_number_input label v d s =
     (case entered s label of None \<Rightarrow> v | Some u \<Rightarrow> u,
      s\<lparr>page := page s @ [NumberInput label v d]\<rparr>)"

subsection \<open>The script\<close>

text \<open>Line 8.\<close>

definition get_user_input :: "'a render_state_scheme \<Rightarrow> int \<times> 'a render_state_scheme" where
  "get_user_input s = st_number_input ''Enter an integer'' 1 1 s"

text \<open>Lines 16 to 18: the three f-strings, in order.\<close>

definition display_lines :: "int \<Rightarrow> int \<times> int \<times> int \<Rightarrow> string list" where
  "display_lines n r =
     (case r of (sq, cu, fp) \<Rightarrow>
        [''The sqaure of '' @ py_str n @ '' is: '' @ py_str sq,
         ''The cube of '' @ py_str n @ '' is: '' @ py_str cu,
         ''The fifth_power of '' @ py_str n @ '' is: '' @ py_str fp])"

definition display_results ::
  "int \<Rightarrow> int \<times> int \<times> int \<Rightarrow> 'a render_state_scheme \<Rightarrow> 'a render_state_scheme" where
  "display_results n r s = fold st_write (display_lines n r) s"

text \<open>
  The whole script. It yields the values bound to \<open>square\<close>, \<open>cube\<close> and
  \<open>fifth_power\<close> together with the state after the last line. The page of the
  result is the page of the start state followed by the elements of this run; that
  Streamlit starts every run on an empty page is not part of this model, so only one
  run from a given state is described, not a sequence of runs.
\<close>

definition app ::
  "'a render_state_scheme \<Rightarrow> py_exit + ((int \<times> int \<times> int) \<times> 'a render_state_scheme)" where
  "app s =
     (let s1 = st_title ''Power Calculator'' s;
          s2 = st_write ''Enter a number to calculate its square, cube and fifth power.'' s1;
          (n, s3) = get_user_input s2
      in case calculator n of
           Inl x \<Rightarrow> Inl x
         | Inr r \<Rightarrow> Inr (r, display_results n r s3))"

subsection \<open>The first render\<close>

text \<open>The state in which the script runs before the user has touched the page.\<close>

definition fresh_state :: render_state where
  "fresh_state = \<lparr>entered = Map.empty, page = []\<rparr>"

text \<open>The triple a run computes, without the state it leaves.\<close>

definition computed :: "'a render_state_scheme \<Rightarrow> py_exit + (int \<times> int \<times> int)" where
  "computed s = (case app s of Inl x \<Rightarrow> Inl x | Inr (r, s') \<Rightarrow> Inr r)"

subsection \<open>The output as the specification words it\<close>

text \<open>
  The specification gives the three lines as \<open>The square of {n} is: {n^2}\<close>,
  \<open>The cube of {n} is: {n^3}\<close> and \<open>The fifth_power of {n} is: {n^5}\<close>. This
  definition follows those words, not the script, and is what \<open>display_lines\<close> is
  compared with.
\<close>

definition spec_display_lines :: "int \<Rightarrow> int \<times> int \<times> int \<Rightarrow> string list" where
  "spec_display_lines n r =
     (case r of (sq, cu, fp) \<Rightarrow>
        [''The square of '' @ py_str n @ '' is: '' @ py_str sq,
         ''The cube of '' @ py_str n @ '' is: '' @ py_str cu,
         ''The fifth_power of '' @ py_str n @ '' is: '' @ py_str fp])"

section \<open>Properties of the computation\<close>

lemma square_eq: "square n = Inr (n * n)"
  by (simp add: square_def py_pow_def power2_eq_square)

lemma cube_eq: "cube n = Inr (n * n * n)"
  by (simp add: cube_def py_pow_def power3_eq_cube)

lemma fifth_power_eq: "fifth_power n = Inr (n * n * n * n * n)"
  by (simp add: fifth_power_def py_pow_def eval_nat_numeral mult.assoc)

lemma calculator_eq: "calculator n = Inr (n * n, n * n * n, n * n * n * n * n)"
  by (simp add: calculator_def square_eq cube_eq fifth_power_eq)

lemma calculator_sgn:
  "sgn (n * n * n) = sgn (n::int)"
  "sgn (n * n * n * n * n) = sgn n"
  by (cases n "0::int" rule: linorder_cases; simp add: sgn_mult)+

section \<open>Properties of a run of the script\<close>

lemma fold_st_write: "fold st_write ts s = s\<lparr>page := page s @ map Text ts\<rparr>"
  by (induction ts arbitrary: s) (simp_all add: st_write_def)

text \<open>A run in closed form: the value of the field, the triple, and the page it leaves.\<close>

lemma app_eq:
  "app s =
     (let n = fst (get_user_input s); r = (n * n, n * n * n, n * n * n * n * n)
      in Inr (r, s\<lparr>page := page s @
                     [Title ''Power Calculator'',
                      Text ''Enter a number to calculate its square, cube and fifth power.'',
                      NumberInput ''Enter an integer'' 1 1] @
                     map Text (display_lines n r)\<rparr>))"
  by (simp add: app_def get_user_input_def st_number_input_def st_title_def st_write_def
      calculator_eq display_results_def fold_st_write Let_def)

lemma computed_eq: "computed s = calculator (fst (get_user_input s))"
  by (simp add: computed_def app_eq calculator_eq Let_def)

text \<open>The first render, evaluated.\<close>

lemma app_fresh:
  "app fresh_state =
     Inr ((1, 1, 1),
          \<lparr>entered = Map.empty,
           page = [Title ''Power Calculator'',
                   Text ''Enter a number to calculate its square, cube and fifth power.'',
                   NumberInput ''Enter an integer'' 1 1,
                   Text ''The sqaure of 1 is: 1'',
                   Text ''The cube of 1 is: 1'',
                   Text ''The fifth_power of 1 is: 1'']\<rparr>)"
  by (simp add: app_eq fresh_state_def Let_def get_user_input_def st_number_input_def
      display_lines_def py_str_def nat_digits.simps digit_char_def)

text \<open>
  The script's lines against the specification's: the second and the third agree for
  every input, the first never does.
\<close>

lemma display_lines_vs_spec:
  "hd (display_lines n r) \<noteq> hd (spec_display_lines n r)"
  "tl (display_lines n r) = tl (spec_display_lines n r)"
  by (simp_all add: display_lines_def spec_display_lines_def split: prod.splits)

section \<open>The properties the specification states\<close>

text \<open>
  C1. For every integer \<open>n\<close> the computed triple is \<open>(n*n, n*n*n, n*n*n*n*n)\<close>: the
  second, third and fifth power of \<open>n\<close>.
\<close>

theorem calculator_products:
  "calculator n = Inr (n * n, n * n * n, n * n * n * n * n)"
  by (rule calculator_eq)

text \<open>
  C3. At \<open>n = -2\<close> the triple is \<open>(4, -8, -32)\<close> and at \<open>n = 10\<close> it is
  \<open>(100, 1000, 100000)\<close>; every negative input has a positive square and a negative
  cube and fifth power.
\<close>

theorem calculator_examples:
  "calculator (- 2) = Inr (4, - 8, - 32) \<and>
   calculator 10 = Inr (100, 1000, 100000) \<and>
   (\<forall>n. n < 0 \<longrightarrow>
      (\<exists>sq cu fp. calculator n = Inr (sq, cu, fp) \<and> 0 < sq \<and> cu < 0 \<and> fp < 0))"
proof (intro conjI allI impI)
  show "calculator (- 2) = Inr (4, - 8, - 32)"
    by (simp add: calculator_eq)
  show "calculator 10 = Inr (100, 1000, 100000)"
    by (simp add: calculator_eq)
next
  fix n :: int
  assume neg: "n < 0"
  then have sq: "0 < n * n"
    by (simp add: mult_neg_neg)
  from neg sq have cu: "n * n * n < 0"
    by (simp add: mult_pos_neg)
  from neg cu have q: "0 < n * n * n * n"
    by (simp add: mult_neg_neg)
  from neg q have fp: "n * n * n * n * n < 0"
    by (simp add: mult_pos_neg)
  from sq cu fp
  show "\<exists>sq cu fp. calculator n = Inr (sq, cu, fp) \<and> 0 < sq \<and> cu < 0 \<and> fp < 0"
    by (simp add: calculator_eq)
qed

theorem calculator_examples_witness:
  "(- 2 :: int) < 0 \<and>
   (\<exists>sq cu fp. calculator (- 2) = Inr (sq, cu, fp) \<and> 0 < sq \<and> cu < 0 \<and> fp < 0)"
proof -
  have h: "(- 2 :: int) < 0"
    by simp
  from calculator_examples
  have "\<forall>n. n < 0 \<longrightarrow>
          (\<exists>sq cu fp. calculator n = Inr (sq, cu, fp) \<and> 0 < sq \<and> cu < 0 \<and> fp < 0)"
    by (elim conjE)
  with h show ?thesis
    by blast
qed

text \<open>
  C4. The computation never fails: for every integer \<open>n\<close>, zero and the negative ones
  included, each of the three powers yields an integer, and so does the triple; no
  exit of \<open>py_pow\<close> is reached.
\<close>

theorem calculator_total:
  "(\<exists>sq. square n = Inr sq) \<and> (\<exists>cu. cube n = Inr cu) \<and>
   (\<exists>fp. fifth_power n = Inr fp) \<and> (\<exists>r. calculator n = Inr r) \<and>
   (\<forall>x. calculator n \<noteq> Inl x)"
  by (simp add: square_eq cube_eq fifth_power_eq calculator_eq)

text \<open>
  C2. The claim: for every input the displayed result is the three lines
  \<open>The square of n is: ...\<close>, \<open>The cube of n is: ...\<close> and
  \<open>The fifth_power of n is: ...\<close>. The script's first line reads \<open>sqaure\<close>
  instead; evaluated at the default input \<open>n = 1\<close>, what the script writes and what the
  specification words differ.
\<close>

theorem display_lines_misspelt:
  "display_lines 1 (1, 1, 1) =
     [''The sqaure of 1 is: 1'', ''The cube of 1 is: 1'', ''The fifth_power of 1 is: 1''] \<and>
   spec_display_lines 1 (1, 1, 1) =
     [''The square of 1 is: 1'', ''The cube of 1 is: 1'', ''The fifth_power of 1 is: 1''] \<and>
   display_lines 1 (1, 1, 1) \<noteq> spec_display_lines 1 (1, 1, 1)"
  by (simp add: display_lines_def spec_display_lines_def py_str_def nat_digits.simps
      digit_char_def)

text \<open>
  C5. The triple is a function of the supplied integer alone: two runs in which the
  field returns the same \<open>n\<close> compute the same triple, whatever else differs between
  their states (the page so far, other fields, the rest of the host's state).
\<close>

theorem computed_deterministic:
  "fst (get_user_input s) = fst (get_user_input t) \<Longrightarrow> computed s = computed t"
  by (simp add: computed_eq)

theorem computed_deterministic_witness:
  "fst (get_user_input \<lparr>entered = [''Enter an integer'' \<mapsto> 3], page = []\<rparr>) =
   fst (get_user_input
          \<lparr>entered = [''Enter an integer'' \<mapsto> 3, ''other'' \<mapsto> 7],
           page = [Title ''left over'']\<rparr>) \<and>
   computed \<lparr>entered = [''Enter an integer'' \<mapsto> 3], page = []\<rparr> =
   computed \<lparr>entered = [''Enter an integer'' \<mapsto> 3, ''other'' \<mapsto> 7],
             page = [Title ''left over'']\<rparr>"
proof -
  have h:
    "fst (get_user_input \<lparr>entered = [''Enter an integer'' \<mapsto> 3], page = []\<rparr>) =
     fst (get_user_input
            \<lparr>entered = [''Enter an integer'' \<mapsto> 3, ''other'' \<mapsto> 7],
             page = [Title ''left over'']\<rparr>)"
    by (simp add: get_user_input_def st_number_input_def)
  from h computed_deterministic [OF h] show ?thesis
    by (rule conjI)
qed

text \<open>
  C7. The input field is configured with default value 1 and step 1, and when the user
  has not adjusted it the field returns 1 and the computed triple is \<open>(1, 1, 1)\<close>.
\<close>

theorem default_input:
  "entered s ''Enter an integer'' = None \<Longrightarrow>
     get_user_input s = (1, s\<lparr>page := page s @ [NumberInput ''Enter an integer'' 1 1]\<rparr>) \<and>
     computed s = Inr (1, 1, 1)"
  by (simp add: computed_eq calculator_eq get_user_input_def st_number_input_def)

theorem default_input_witness:
  "entered fresh_state ''Enter an integer'' = None \<and>
   get_user_input fresh_state =
     (1, fresh_state\<lparr>page := page fresh_state @ [NumberInput ''Enter an integer'' 1 1]\<rparr>) \<and>
   computed fresh_state = Inr (1, 1, 1)"
proof -
  have h: "entered fresh_state ''Enter an integer'' = None"
    by (simp add: fresh_state_def)
  from h default_input [OF h] show ?thesis
    by (rule conjI)
qed

text \<open>
  C8. The arithmetic is exact on unbounded integers: for every \<open>n\<close> the values are the
  mathematical \<open>n^2\<close>, \<open>n^3\<close> and \<open>n^5\<close>, also where they no longer fit a machine
  word, as at \<open>n = 2^64\<close>.
\<close>

theorem calculator_exact:
  "calculator n = Inr (n ^ 2, n ^ 3, n ^ 5) \<and>
   calculator (2 ^ 64) = Inr (2 ^ 128, 2 ^ 192, 2 ^ 320)"
  by (simp add: calculator_def square_def cube_def fifth_power_def py_pow_def
      flip: power_mult)

text \<open>
  C9. The three outputs are consistent with each other: for every \<open>n\<close> the square
  times the cube is the fifth power, and the fifth power is \<open>n\<close> times the square
  times the square.
\<close>

theorem calculator_consistent:
  "\<exists>sq cu fp. calculator n = Inr (sq, cu, fp) \<and> sq * cu = fp \<and> fp = n * sq * sq"
  by (simp add: calculator_eq mult.assoc)

text \<open>
  C10. Signs: for every \<open>n\<close> the square is not negative, and the cube and the fifth
  power have the sign of \<open>n\<close> (positive, zero or negative as \<open>n\<close> is).
\<close>

theorem calculator_signs:
  "\<exists>sq cu fp. calculator n = Inr (sq, cu, fp) \<and>
     0 \<le> sq \<and> sgn cu = sgn n \<and> sgn fp = sgn n"
  by (simp add: calculator_eq calculator_sgn)

end
